theory Spec2Isabelle
  imports Complex_Main
begin

section \<open>Numbers and strings of the host language\<close>

text \<open>
  A JavaScript Number is modelled by the real number it denotes; rounding of doubles,
  NaN and the infinities are outside the model (every number the monitor stores comes
  from a slider of the page or from a literal of the source).
\<close>

definition digit_char :: "nat \<Rightarrow> char" where
  "digit_char d = ''0123456789'' ! d"

fun digits_of_nat :: "nat \<Rightarrow> string" where
  "digits_of_nat n =
     (if n < 10 then [digit_char n]
      else digits_of_nat (n div 10) @ [digit_char (n mod 10)])"

declare digits_of_nat.simps [simp del]

fun fraction_digits :: "nat \<Rightarrow> real \<Rightarrow> string" where
  "fraction_digits 0 f = []"
| "fraction_digits (Suc k) f =
     (if f = 0 then []
      else digit_char (nat \<lfloor>f * 10\<rfloor>) # fraction_digits k (f * 10 - of_int \<lfloor>f * 10\<rfloor>))"

text \<open>
  \<open>`${value}`\<close> in a template literal is Number::toString. For an integer it is the
  decimal numeral (\<open>36.0\<close> prints as \<open>36\<close>); for a number with a short decimal
  expansion it is that expansion (\<open>37.5\<close>). At most 17 fraction digits are produced;
  the exponent notation of very large and very small numbers is not modelled.
\<close>

definition number_to_string :: "real \<Rightarrow> string" where
  "number_to_string x =
     (if x < 0 then ''-'' else '''') @ digits_of_nat (nat \<lfloor>\<bar>x\<bar>\<rfloor>) @
     (if frac \<bar>x\<bar> = 0 then '''' else ''.'' @ fraction_digits 17 (frac \<bar>x\<bar>))"

text \<open>\<open>Array.prototype.join\<close> with a separator.\<close>

fun join :: "string \<Rightarrow> string list \<Rightarrow> string" where
  "join sep [] = ''''"
| "join sep [x] = x"
| "join sep (x # y # ys) = x @ sep @ join sep (y # ys)"

text \<open>
  \<open>x % 1\<close>: the remainder of JavaScript truncates towards zero, so the result has the
  sign of \<open>x\<close>.
\<close>

definition rem1 :: "real \<Rightarrow> real" where
  "rem1 x = x - of_int (if 0 \<le> x then \<lfloor>x\<rfloor> else \<lceil>x\<rceil>)"

section \<open>The monitor object\<close>

datatype vital = HeartRate | Spo2 | RespiratoryRate | SystolicBP | DiastolicBP | Temperature

text \<open>The property names of \<open>this.vitals\<close>, and \<open>Object.keys\<close> in insertion order.\<close>

fun vital_name :: "vital \<Rightarrow> string" where
  "vital_name HeartRate = ''heartRate''"
| "vital_name Spo2 = ''spo2''"
| "vital_name RespiratoryRate = ''respiratoryRate''"
| "vital_name SystolicBP = ''systolicBP''"
| "vital_name DiastolicBP = ''diastolicBP''"
| "vital_name Temperature = ''temperature''"

definition vital_keys :: "vital list" where
  "vital_keys = [HeartRate, Spo2, RespiratoryRate, SystolicBP, DiastolicBP, Temperature]"

record limits =
  low :: real
  high :: real

text \<open>
  \<open>this.alarmLimits\<close> is assigned once, in the constructor, and no method writes to it.
\<close>

fun alarmLimits :: "vital \<Rightarrow> limits" where
  "alarmLimits HeartRate = \<lparr>low = 60, high = 100\<rparr>"
| "alarmLimits Spo2 = \<lparr>low = 95, high = 100\<rparr>"
| "alarmLimits RespiratoryRate = \<lparr>low = 12, high = 20\<rparr>"
| "alarmLimits SystolicBP = \<lparr>low = 90, high = 140\<rparr>"
| "alarmLimits DiastolicBP = \<lparr>low = 60, high = 90\<rparr>"
| "alarmLimits Temperature = \<lparr>low = 36.0, high = 37.5\<rparr>"

text \<open>The overlay elements of the page whose class list the monitor edits.\<close>

datatype overlay =
  HrOverlay | Spo2Overlay | RrOverlay | BpOverlay | TempOverlay | StOverlay | ArrhythmiaOverlay

text \<open>The table \<open>vitalOverlays\<close> of \<open>checkAlarms\<close>: both pressures share \<open>bp-overlay\<close>.\<close>

fun vitalOverlays :: "vital \<Rightarrow> overlay" where
  "vitalOverlays HeartRate = HrOverlay"
| "vitalOverlays Spo2 = Spo2Overlay"
| "vitalOverlays RespiratoryRate = RrOverlay"
| "vitalOverlays SystolicBP = BpOverlay"
| "vitalOverlays DiastolicBP = BpOverlay"
| "vitalOverlays Temperature = TempOverlay"

text \<open>
  The callbacks the monitor hands to \<open>setTimeout\<close> for the alarm silence and the
  blood-pressure cycle. None of them captures a variable that changes, so a tag
  stands for the closure.
\<close>

datatype callback = SilenceExpire | NibpDeflating | NibpComplete | NibpRetrigger

datatype timer = Timer (timer_id: nat) (due: nat) (callback: callback)

text \<open>
  The fields of \<open>VitalSignsMonitor\<close> that the alarm engine, the blood-pressure cycle and
  the waveform generators read or write, the state of the page elements they edit, and
  the timer queue of the host: \<open>clock\<close> is the time in milliseconds, \<open>timers\<close> the
  pending one-shot callbacks in the order of their creation. \<open>audioContext\<close> tells
  whether the audio context exists, and \<open>alarmSounds\<close> counts the alarm sounds handed to
  it; heartbeat sounds are not recorded.
\<close>

record monitor =
  vitals :: "vital \<Rightarrow> real"
  alarmEnabled :: bool
  audioEnabled :: bool
  audioContext :: bool
  alarmActive :: bool
  alarmSilenced :: bool
  isFrozen :: bool
  motion :: bool
  poorContact :: bool
  muscleTremor :: bool
  baselineDrift :: bool
  stElevation :: real
  currentRhythm :: string
  nibpMeasuring :: bool
  nibpInterval :: int
  nibpTimer :: "nat option"
  alarmStatusActive :: bool
  alarmMessage :: string
  overlayAlarm :: "overlay set"
  vitalOverlayElements :: "overlay set"
  nibpStatus :: string
  nibpStatusMeasuring :: bool
  nibpStatusSuccess :: bool
  startBtnDisabled :: bool
  stopBtnDisabled :: bool
  alarmSounds :: nat
  clock :: nat
  timers :: "timer list"
  nextTimerId :: nat

section \<open>The alarm engine\<close>

text \<open>\<open>createAlarmSound\<close>: returns at once without an audio context.\<close>

definition createAlarmSound :: "monitor \<Rightarrow> monitor" where
  "createAlarmSound s =
     (if \<not> audioContext s then s else s\<lparr>alarmSounds := Suc (alarmSounds s)\<rparr>)"

definition triggerAlarm :: "string list \<Rightarrow> monitor \<Rightarrow> monitor" where
  "triggerAlarm alarms s =
     (let s1 = s\<lparr>alarmActive := True, alarmStatusActive := True,
                  alarmMessage := join '', '' alarms\<rparr>
      in if audioEnabled s1 \<and> audioContext s1 then createAlarmSound s1 else s1)"

text \<open>
  \<open>clearAlarms\<close> removes the class \<open>alarm\<close> from every element the selector
  \<open>.vital-overlay\<close> finds; which elements carry that class is markup of the page,
  kept in \<open>vitalOverlayElements\<close>. The text of the alarm message is left as it is.
\<close>

definition clearAlarms :: "monitor \<Rightarrow> monitor" where
  "clearAlarms s =
     s\<lparr>alarmActive := False, alarmStatusActive := False,
       overlayAlarm := overlayAlarm s - vitalOverlayElements s\<rparr>"

definition breach_message :: "vital \<Rightarrow> real \<Rightarrow> string" where
  "breach_message v val =
     vital_name v @ '': '' @ number_to_string val @ '' (Normal: '' @
     number_to_string (low (alarmLimits v)) @ ''-'' @
     number_to_string (high (alarmLimits v)) @ '')''"

text \<open>
  The \<open>forEach\<close> over the keys of \<open>this.vitals\<close>: the array \<open>alarms\<close> and the overlays
  holding the class \<open>alarm\<close> are threaded through.
\<close>

fun check_each :: "vital list \<Rightarrow> (vital \<Rightarrow> real) \<Rightarrow> string list \<times> overlay set
    \<Rightarrow> string list \<times> overlay set" where
  "check_each [] vs (alarms, ov) = (alarms, ov)"
| "check_each (v # rest) vs (alarms, ov) =
     (let val = vs v; lim = alarmLimits v; el = vitalOverlays v
      in if val < low lim \<or> val > high lim
         then check_each rest vs (alarms @ [breach_message v val], insert el ov)
         else check_each rest vs (alarms, ov - {el}))"

definition checkAlarms :: "monitor \<Rightarrow> monitor" where
  "checkAlarms s =
     (if \<not> alarmEnabled s \<or> alarmSilenced s then s
      else
        (let (alarms, ov) = check_each vital_keys (vitals s) ([], overlayAlarm s);
             s1 = s\<lparr>overlayAlarm := ov\<rparr>
         in if length alarms > 0 then triggerAlarm alarms s1 else clearAlarms s1))"

definition testAlarm :: "monitor \<Rightarrow> monitor" where
  "testAlarm s = triggerAlarm [''Test Alarm - All systems functioning''] s"

text \<open>
  \<open>updateVital\<close>: the two display updates around \<open>checkAlarms\<close> only copy the values
  into text nodes.
\<close>

definition updateVital :: "vital \<Rightarrow> real \<Rightarrow> monitor \<Rightarrow> monitor" where
  "updateVital vitalName val s = checkAlarms (s\<lparr>vitals := (vitals s)(vitalName := val)\<rparr>)"

text \<open>\<open>resetAlarms\<close> clears the silence flag and leaves the pending silence timers alone.\<close>

definition resetAlarms :: "monitor \<Rightarrow> monitor" where
  "resetAlarms s = (clearAlarms s)\<lparr>alarmSilenced := False\<rparr>"

text \<open>
  The handler of the \<open>alarm-enabled\<close> checkbox.
\<close>

definition setAlarmEnabled :: "bool \<Rightarrow> monitor \<Rightarrow> monitor" where
  "setAlarmEnabled b s =
     (let s1 = s\<lparr>alarmEnabled := b\<rparr> in if \<not> alarmEnabled s1 then clearAlarms s1 else s1)"

section \<open>One-shot timers\<close>

text \<open>
  \<open>setTimeout\<close> appends a timer that is due \<open>delay\<close> milliseconds from now and returns
  its handle; \<open>clearTimeout\<close> drops the timer with that handle. Handles are positive, so
  a stored handle is truthy. The model counts them from 1; which numbers the host hands
  out does not matter, only that no two timers share one. A timer fires exactly when
  it is due.
\<close>

definition setTimeout :: "callback \<Rightarrow> nat \<Rightarrow> monitor \<Rightarrow> nat \<times> monitor" where
  "setTimeout cb delay s =
     (nextTimerId s,
      s\<lparr>timers := timers s @ [Timer (nextTimerId s) (clock s + delay) cb],
        nextTimerId := Suc (nextTimerId s)\<rparr>)"

definition clearTimeout :: "nat \<Rightarrow> monitor \<Rightarrow> monitor" where
  "clearTimeout h s = s\<lparr>timers := filter (\<lambda>tm. timer_id tm \<noteq> h) (timers s)\<rparr>"

definition silenceAlarm :: "monitor \<Rightarrow> monitor" where
  "silenceAlarm s = snd (setTimeout SilenceExpire 120000 (clearAlarms (s\<lparr>alarmSilenced := True\<rparr>)))"

section \<open>The blood-pressure cycle\<close>

definition startNIBPMeasurement :: "monitor \<Rightarrow> monitor" where
  "startNIBPMeasurement s =
     (if nibpMeasuring s then s
      else snd (setTimeout NibpDeflating 3000
        (s\<lparr>nibpMeasuring := True, nibpStatus := ''Measuring...'',
           nibpStatusMeasuring := True, startBtnDisabled := True,
           stopBtnDisabled := False\<rparr>)))"

definition stopNIBPMeasurement :: "monitor \<Rightarrow> monitor" where
  "stopNIBPMeasurement s =
     (let s1 = s\<lparr>nibpMeasuring := False, nibpStatus := ''Stopped'',
                  nibpStatusMeasuring := False, nibpStatusSuccess := False,
                  startBtnDisabled := False, stopBtnDisabled := True\<rparr>
      in case nibpTimer s1 of
           None \<Rightarrow> s1
         | Some h \<Rightarrow> (clearTimeout h s1)\<lparr>nibpTimer := None\<rparr>)"

text \<open>
  What each callback does when its timer fires. \<open>NibpDeflating\<close> is the outer arrow
  function of \<open>startNIBPMeasurement\<close>, \<open>NibpComplete\<close> the inner one, \<open>NibpRetrigger\<close>
  the one stored in \<open>nibpTimer\<close>, \<open>SilenceExpire\<close> the one of \<open>silenceAlarm\<close>.
\<close>

fun fire :: "callback \<Rightarrow> monitor \<Rightarrow> monitor" where
  "fire SilenceExpire s = s\<lparr>alarmSilenced := False\<rparr>"
| "fire NibpDeflating s = snd (setTimeout NibpComplete 2000 (s\<lparr>nibpStatus := ''Deflating...''\<rparr>))"
| "fire NibpComplete s =
     (let s1 = s\<lparr>nibpStatus := ''Complete'', nibpStatusMeasuring := False,
                  nibpStatusSuccess := True, startBtnDisabled := False,
                  stopBtnDisabled := True\<rparr>
      in if nibpInterval s1 > 0
         then (let (h, s2) = setTimeout NibpRetrigger (nat (nibpInterval s1 * 60000)) s1
               in s2\<lparr>nibpTimer := Some h\<rparr>)
         else s1)"
| "fire NibpRetrigger s = startNIBPMeasurement s"

section \<open>The event loop\<close>

text \<open>
  The earliest pending timer that is due by time \<open>t\<close>; among timers due at the same
  time, the one created first.
\<close>

fun next_timer :: "nat \<Rightarrow> timer list \<Rightarrow> timer option" where
  "next_timer t [] = None"
| "next_timer t (tm # tms) =
     (case next_timer t tms of
        None \<Rightarrow> (if due tm \<le> t then Some tm else None)
      | Some tm' \<Rightarrow> (if due tm \<le> due tm' then Some tm else Some tm'))"

text \<open>Taking a timer off the queue and running its callback at the time it is due.\<close>

definition fire_timer :: "timer \<Rightarrow> monitor \<Rightarrow> monitor" where
  "fire_timer tm s =
     fire (callback tm) (s\<lparr>clock := max (clock s) (due tm), timers := remove1 tm (timers s)\<rparr>)"

definition pending_weight :: "nat \<Rightarrow> timer list \<Rightarrow> nat" where
  "pending_weight t tms = sum_list (map (\<lambda>tm. Suc t - due tm) tms)"

text \<open>
  Every callback schedules at most one new timer, strictly later than the present, so
  the weight of the timers due by \<open>t\<close> falls with every timer that fires.
\<close>

lemma next_timer_Some: "next_timer t tms = Some tm \<Longrightarrow> tm \<in> set tms \<and> due tm \<le> t"
  by (induction tms arbitrary: tm) (auto split: option.splits if_splits)

lemma pending_weight_remove1:
  "tm \<in> set tms \<Longrightarrow> pending_weight t tms = pending_weight t (remove1 tm tms) + (Suc t - due tm)"
  by (induction tms) (auto simp: pending_weight_def)

lemma timers_fire:
  "timers (fire cb s) = timers s \<or>
   (\<exists>h d c. 0 < d \<and> timers (fire cb s) = timers s @ [Timer h (clock s + d) c])"
  by (cases cb) (auto simp: setTimeout_def startNIBPMeasurement_def Let_def split: prod.splits)

lemma fire_timer_weight:
  assumes "next_timer t (timers s) = Some tm"
  shows "pending_weight t (timers (fire_timer tm s)) < pending_weight t (timers s)"
proof -
  from assms have mem: "tm \<in> set (timers s)" and d: "due tm \<le> t"
    using next_timer_Some by blast+
  let ?s' = "s\<lparr>clock := max (clock s) (due tm), timers := remove1 tm (timers s)\<rparr>"
  have w: "pending_weight t (timers s) = pending_weight t (remove1 tm (timers s)) + (Suc t - due tm)"
    using mem by (rule pending_weight_remove1)
  from timers_fire [of "callback tm" ?s'] show ?thesis
  proof
    assume "timers (fire (callback tm) ?s') = timers ?s'"
    with w d show ?thesis by (simp add: fire_timer_def)
  next
    assume "\<exists>h dl c. 0 < dl \<and> timers (fire (callback tm) ?s') = timers ?s' @ [Timer h (clock ?s' + dl) c]"
    then obtain h dl c where "0 < dl"
      and "timers (fire (callback tm) ?s') = timers ?s' @ [Timer h (clock ?s' + dl) c]" by blast
    with w d show ?thesis by (simp add: fire_timer_def pending_weight_def)
  qed
qed

text \<open>
  Letting time pass until \<open>t\<close>: the timers due by then fire one after the other, each
  at its own time, those scheduled on the way included.
\<close>

function run_until :: "nat \<Rightarrow> monitor \<Rightarrow> monitor" where
  "run_until t s =
     (case next_timer t (timers s) of
        None \<Rightarrow> s\<lparr>clock := max (clock s) t\<rparr>
      | Some tm \<Rightarrow> run_until t (fire_timer tm s))"
  by pat_completeness auto
termination
  by (relation "measure (\<lambda>(t, s). pending_weight t (timers s))") (auto simp: fire_timer_weight)

declare run_until.simps [simp del]

section \<open>Waveform generation\<close>

text \<open>
  \<open>rnd\<close> is the number \<open>Math.random()\<close> returns to the branch that calls it: no branch
  calls it twice. The parameter \<open>time\<close> is not read.
\<close>

definition generateArrhythmiaECG :: "monitor \<Rightarrow> real \<Rightarrow> real \<Rightarrow> real \<Rightarrow> real" where
  "generateArrhythmiaECG s rnd beatPhase time =
     (if currentRhythm s = ''NSR'' then
        (if beatPhase < 0.1 then sin (beatPhase * pi * 10) * 0.2
         else if beatPhase < 0.15 then sin ((beatPhase - 0.1) * pi * 20) * 1.0
         else if beatPhase < 0.3 then sin ((beatPhase - 0.15) * pi * 6.67) * 0.3
         else 0)
      else if currentRhythm s = ''AF'' then
        (let irregularity = (rnd - 0.5) * 0.3
         in if beatPhase < 0.1 then sin (beatPhase * pi * 10) * (0.1 + irregularity)
            else if beatPhase < 0.15 then sin ((beatPhase - 0.1) * pi * 20) * 1.0
            else if beatPhase < 0.3 then sin ((beatPhase - 0.15) * pi * 6.67) * 0.3
            else 0)
      else if currentRhythm s = ''VT'' then
        (if beatPhase < 0.1 then sin (beatPhase * pi * 10) * 0.1
         else if beatPhase < 0.2 then sin ((beatPhase - 0.1) * pi * 10) * 1.2
         else if beatPhase < 0.4 then sin ((beatPhase - 0.2) * pi * 5) * 0.4
         else 0)
      else if currentRhythm s = ''VF'' then (rnd - 0.5) * 2.0
      else if currentRhythm s = ''PVC'' then
        (let pvcChance = rnd
         in if pvcChance < 0.1 then
              (if beatPhase < 0.15 then sin (beatPhase * pi * 13.3) * 1.5
               else if beatPhase < 0.3 then sin ((beatPhase - 0.15) * pi * 6.67) * 0.5
               else 0)
            else
              (if beatPhase < 0.1 then sin (beatPhase * pi * 10) * 0.2
               else if beatPhase < 0.15 then sin ((beatPhase - 0.1) * pi * 20) * 1.0
               else if beatPhase < 0.3 then sin ((beatPhase - 0.15) * pi * 6.67) * 0.3
               else 0))
      else
        (if beatPhase < 0.1 then sin (beatPhase * pi * 10) * 0.2
         else if beatPhase < 0.15 then sin ((beatPhase - 0.1) * pi * 20) * 1.0
         else if beatPhase < 0.3 then sin ((beatPhase - 0.15) * pi * 6.67) * 0.3
         else 0))"

definition addArtifacts :: "monitor \<Rightarrow> real \<Rightarrow> real \<Rightarrow> real \<Rightarrow> real" where
  "addArtifacts s rnd amplitude time =
     (let a0 = amplitude;
          a1 = (if motion s then a0 + sin (time * 2) * 0.3 else a0);
          a2 = (if poorContact s then a1 + (rnd - 0.5) * 0.4 else a1);
          a3 = (if muscleTremor s then a2 + sin (time * 8) * 0.2 else a2);
          a4 = (if baselineDrift s then a3 + sin (time * 0.1) * 0.5 else a3)
      in a4)"

text \<open>
  The three random numbers one ECG sample may draw: in the rhythm branch, for the
  noise, and for the poor-contact artifact.
\<close>

record draws =
  rhythm_draw :: real
  noise_draw :: real
  contact_draw :: real

text \<open>
  The body of the sample loop of \<open>animateECG\<close> at column \<open>x\<close> of a canvas \<open>width\<close>
  columns wide, where \<open>now\<close> is what \<open>Date.now()\<close> returned at the start of the tick.
\<close>

definition ecg_sample :: "monitor \<Rightarrow> nat \<Rightarrow> nat \<Rightarrow> draws \<Rightarrow> nat \<Rightarrow> real" where
  "ecg_sample s now width u x =
     (let heartRate = vitals s HeartRate;
          time = real now / 1000;
          t = time + (real x / real width) * 2;
          beatPhase = rem1 (t * heartRate / 60);
          a0 = generateArrhythmiaECG s (rhythm_draw u) beatPhase t;
          a1 = (if beatPhase \<ge> 0.15 \<and> beatPhase < 0.25 then a0 + stElevation s * 0.3 else a0);
          a2 = a1 + (noise_draw u - 0.5) * 0.05
      in addArtifacts s (contact_draw u) a2 t)"

definition pleth_sample :: "monitor \<Rightarrow> nat \<Rightarrow> nat \<Rightarrow> real \<Rightarrow> nat \<Rightarrow> real" where
  "pleth_sample s now width rnd x =
     (let spo2 = vitals s Spo2;
          heartRate = vitals s HeartRate;
          time = real now / 1000;
          t = time + (real x / real width) * 2;
          beatPhase = rem1 (t * heartRate / 60);
          a0 = 0.3 + 0.7 * sin (beatPhase * pi * 2);
          a1 = a0 * (spo2 / 100)
      in a1 + (rnd - 0.5) * 0.1)"

text \<open>How a tick asks to be run again.\<close>

datatype reschedule = AnimationFrame | Timeout nat

text \<open>
  One tick of \<open>animateECG\<close> and of \<open>animatePleth\<close>: the samples of the frame, one per
  column, and the request for the next tick. Both read the clock on every tick; the
  drawing calls are left out.
\<close>

definition animateECG :: "monitor \<Rightarrow> nat \<Rightarrow> nat \<Rightarrow> (nat \<Rightarrow> draws) \<Rightarrow> real list \<times> reschedule" where
  "animateECG s now width us =
     (map (\<lambda>x. ecg_sample s now width (us x) x) [0..<width],
      if \<not> isFrozen s then AnimationFrame else Timeout 100)"

definition animatePleth :: "monitor \<Rightarrow> nat \<Rightarrow> nat \<Rightarrow> (nat \<Rightarrow> real) \<Rightarrow> real list \<times> reschedule" where
  "animatePleth s now width us =
     (map (\<lambda>x. pleth_sample s now width (us x) x) [0..<width],
      if \<not> isFrozen s then AnimationFrame else Timeout 100)"

definition toggleFreeze :: "monitor \<Rightarrow> monitor" where
  "toggleFreeze s = s\<lparr>isFrozen := \<not> isFrozen s\<rparr>"

section \<open>Rhythm and ST-segment overlays\<close>

definition updateSTDisplay :: "monitor \<Rightarrow> monitor" where
  "updateSTDisplay s =
     (if stElevation s > 0.1 \<or> stElevation s < - 0.05
      then s\<lparr>overlayAlarm := insert StOverlay (overlayAlarm s)\<rparr>
      else s\<lparr>overlayAlarm := overlayAlarm s - {StOverlay}\<rparr>)"

definition abnormalRhythms :: "string list" where
  "abnormalRhythms = [''AF'', ''AFL'', ''VT'', ''VF'', ''PVC'', ''PAC'']"

definition updateRhythmDisplay :: "monitor \<Rightarrow> monitor" where
  "updateRhythmDisplay s =
     (if currentRhythm s \<in> set abnormalRhythms
      then s\<lparr>overlayAlarm := insert ArrhythmiaOverlay (overlayAlarm s)\<rparr>
      else s\<lparr>overlayAlarm := overlayAlarm s - {ArrhythmiaOverlay}\<rparr>)"

section \<open>Construction\<close>

text \<open>
  What the constructor finds in its environment: whether an audio context can be
  created, and the markup of the elements it will edit (the page is not part of the
  script).
\<close>

record page =
  webAudio :: bool
  vitalOverlayMarkup :: "overlay set"
  overlayAlarmMarkup :: "overlay set"
  alarmStatusMarkup :: bool
  alarmMessageMarkup :: string
  nibpStatusMarkup :: string
  startBtnMarkup :: bool
  stopBtnMarkup :: bool

text \<open>
  \<open>setupAudio\<close>: without Web Audio the audio flag is switched off; with it the context
  is created and the alarm sound is played once as a test.
\<close>

definition setupAudio :: "page \<Rightarrow> monitor \<Rightarrow> monitor" where
  "setupAudio pg s =
     (if \<not> webAudio pg then s\<lparr>audioEnabled := False\<rparr>
      else createAlarmSound (s\<lparr>audioContext := True\<rparr>))"

text \<open>
  The constructor with \<open>init\<close>. The model's clock starts at 0; the two animation loops
  and the heartbeat loop that \<open>init\<close> starts are not on the timer queue of the model,
  since they touch neither the alarm state nor the blood-pressure cycle.
\<close>

definition new_monitor :: "page \<Rightarrow> monitor" where
  "new_monitor pg =
     updateRhythmDisplay (updateSTDisplay (setupAudio pg
       \<lparr>vitals = (\<lambda>v. case v of HeartRate \<Rightarrow> 72 | Spo2 \<Rightarrow> 98 | RespiratoryRate \<Rightarrow> 16
                      | SystolicBP \<Rightarrow> 120 | DiastolicBP \<Rightarrow> 80 | Temperature \<Rightarrow> 36.5),
        alarmEnabled = True, audioEnabled = True, audioContext = False,
        alarmActive = False, alarmSilenced = False, isFrozen = False,
        motion = False, poorContact = False, muscleTremor = False, baselineDrift = False,
        stElevation = 0.0, currentRhythm = ''NSR'',
        nibpMeasuring = False, nibpInterval = 5, nibpTimer = None,
        alarmStatusActive = alarmStatusMarkup pg, alarmMessage = alarmMessageMarkup pg,
        overlayAlarm = overlayAlarmMarkup pg, vitalOverlayElements = vitalOverlayMarkup pg,
        nibpStatus = nibpStatusMarkup pg, nibpStatusMeasuring = False,
        nibpStatusSuccess = False, startBtnDisabled = startBtnMarkup pg,
        stopBtnDisabled = stopBtnMarkup pg,
        alarmSounds = 0, clock = 0, timers = [], nextTimerId = 1\<rparr>))"

text \<open>
  A page for concrete runs: audio available, the five vital overlays carrying the class
  \<open>vital-overlay\<close>, no alarm shown, an idle blood-pressure panel.
\<close>

definition example_page :: page where
  "example_page =
     \<lparr>webAudio = True,
      vitalOverlayMarkup = {HrOverlay, Spo2Overlay, RrOverlay, BpOverlay, TempOverlay},
      overlayAlarmMarkup = {}, alarmStatusMarkup = False, alarmMessageMarkup = [],
      nibpStatusMarkup = ''Ready'', startBtnMarkup = False, stopBtnMarkup = True\<rparr>"

section \<open>The input surface\<close>

text \<open>
  The event handlers that reach the modelled fields, and the passing of time. The
  handlers left out (display mode, volume, lead, speed, priority, QT interval) assign
  fields that none of the functions above reads.
\<close>

datatype command =
    UpdateVital vital real
  | SetAlarmEnabled bool
  | TestAlarm
  | SilenceAlarm
  | ResetAlarms
  | SetAudioEnabled bool
  | ToggleFreeze
  | SetMotion bool
  | SetPoorContact bool
  | SetMuscleTremor bool
  | SetBaselineDrift bool
  | SetSTElevation real
  | SetRhythm string
  | StartNIBP
  | StopNIBP
  | SetNIBPInterval int
  | Wait nat

fun exec :: "command \<Rightarrow> monitor \<Rightarrow> monitor" where
  "exec (UpdateVital v x) s = updateVital v x s"
| "exec (SetAlarmEnabled b) s = setAlarmEnabled b s"
| "exec TestAlarm s = testAlarm s"
| "exec SilenceAlarm s = silenceAlarm s"
| "exec ResetAlarms s = resetAlarms s"
| "exec (SetAudioEnabled b) s = s\<lparr>audioEnabled := b\<rparr>"
| "exec ToggleFreeze s = toggleFreeze s"
| "exec (SetMotion b) s = s\<lparr>motion := b\<rparr>"
| "exec (SetPoorContact b) s = s\<lparr>poorContact := b\<rparr>"
| "exec (SetMuscleTremor b) s = s\<lparr>muscleTremor := b\<rparr>"
| "exec (SetBaselineDrift b) s = s\<lparr>baselineDrift := b\<rparr>"
| "exec (SetSTElevation x) s = updateSTDisplay (s\<lparr>stElevation := x\<rparr>)"
| "exec (SetRhythm r) s = updateRhythmDisplay (s\<lparr>currentRhythm := r\<rparr>)"
| "exec StartNIBP s = startNIBPMeasurement s"
| "exec StopNIBP s = stopNIBPMeasurement s"
| "exec (SetNIBPInterval n) s = s\<lparr>nibpInterval := n\<rparr>"
| "exec (Wait d) s = run_until (clock s + d) s"

text \<open>A session: the commands run from left to right.\<close>

fun exec_all :: "command list \<Rightarrow> monitor \<Rightarrow> monitor" where
  "exec_all [] s = s"
| "exec_all (c # cs) s = exec_all cs (exec c s)"

text \<open>The array \<open>alarms\<close> that \<open>checkAlarms\<close> holds when its loop over the vitals ends.\<close>

definition checkAlarms_alarms :: "monitor \<Rightarrow> string list" where
  "checkAlarms_alarms s = fst (check_each vital_keys (vitals s) ([], overlayAlarm s))"

text \<open>Whether a vital is outside its limits, as the loop of \<open>checkAlarms\<close> tests it.\<close>

definition breach :: "monitor \<Rightarrow> vital \<Rightarrow> bool" where
  "breach s v = (vitals s v < low (alarmLimits v) \<or> vitals s v > high (alarmLimits v))"

section \<open>Evaluation of decimal numerals\<close>

lemma fraction_digits_numeral:
  "fraction_digits (numeral k) f =
     (if f = 0 then []
      else digit_char (nat \<lfloor>f * 10\<rfloor>) #
           fraction_digits (pred_numeral k) (f * 10 - of_int \<lfloor>f * 10\<rfloor>))"
  by (simp add: numeral_eq_Suc)

lemmas show_simps =
  breach_message_def number_to_string_def digits_of_nat.simps digit_char_def frac_def
  fraction_digits_numeral

section \<open>Properties of the alarm engine\<close>

lemma check_each_alarms:
  "fst (check_each ks vs (al, ov)) =
     al @ map (\<lambda>v. breach_message v (vs v))
            (filter (\<lambda>v. vs v < low (alarmLimits v) \<or> vs v > high (alarmLimits v)) ks)"
  by (induction ks arbitrary: al ov) (simp_all add: Let_def)

lemma checkAlarms_alarms_eq:
  "checkAlarms_alarms s = map (\<lambda>v. breach_message v (vitals s v)) (filter (breach s) vital_keys)"
  unfolding checkAlarms_alarms_def breach_def by (rule check_each_alarms [where al = "[]", simplified])

lemma vital_keys_complete: "v \<in> set vital_keys"
  by (cases v) (simp_all add: vital_keys_def)

lemma breach_message_inj: "breach_message v x = breach_message w y \<Longrightarrow> v = w"
  by (cases v; cases w; simp add: breach_message_def)

lemma breach_message_mem:
  "breach_message v (vitals s v) \<in> set (checkAlarms_alarms s) \<longleftrightarrow> breach s v"
proof
  assume "breach_message v (vitals s v) \<in> set (checkAlarms_alarms s)"
  then obtain w where w: "breach s w" and eq: "breach_message v (vitals s v) = breach_message w (vitals s w)"
    by (auto simp: checkAlarms_alarms_eq)
  from eq have "v = w" by (rule breach_message_inj)
  with w show "breach s v" by simp
next
  assume "breach s v"
  then show "breach_message v (vitals s v) \<in> set (checkAlarms_alarms s)"
    by (simp add: checkAlarms_alarms_eq vital_keys_complete)
qed

lemma limits_ordered: "low (alarmLimits v) \<le> high (alarmLimits v)"
  by (cases v) simp_all

lemma alarms_empty_iff: "checkAlarms_alarms s = [] \<longleftrightarrow> (\<forall>v. \<not> breach s v)"
  by (auto simp: checkAlarms_alarms_eq filter_empty_conv vital_keys_complete)

lemma checkAlarms_skipped: "\<not> alarmEnabled s \<or> alarmSilenced s \<Longrightarrow> checkAlarms s = s"
  by (simp add: checkAlarms_def)

lemma checkAlarms_evaluated:
  assumes "alarmEnabled s" and "\<not> alarmSilenced s"
  shows "checkAlarms s =
     (if checkAlarms_alarms s \<noteq> []
      then triggerAlarm (checkAlarms_alarms s)
             (s\<lparr>overlayAlarm := snd (check_each vital_keys (vitals s) ([], overlayAlarm s))\<rparr>)
      else clearAlarms (s\<lparr>overlayAlarm := snd (check_each vital_keys (vitals s) ([], overlayAlarm s))\<rparr>))"
  using assms by (simp add: checkAlarms_def checkAlarms_alarms_def split: prod.splits)

lemma triggerAlarm_fields [simp]:
  "alarmActive (triggerAlarm al s) = True"
  "alarmStatusActive (triggerAlarm al s) = True"
  "alarmMessage (triggerAlarm al s) = join '', '' al"
  "alarmSounds (triggerAlarm al s) =
     (if audioEnabled s \<and> audioContext s then Suc (alarmSounds s) else alarmSounds s)"
  "alarmEnabled (triggerAlarm al s) = alarmEnabled s"
  "alarmSilenced (triggerAlarm al s) = alarmSilenced s"
  "vitals (triggerAlarm al s) = vitals s"
  by (simp_all add: triggerAlarm_def createAlarmSound_def Let_def)

lemma clearAlarms_fields [simp]:
  "alarmActive (clearAlarms s) = False"
  "alarmEnabled (clearAlarms s) = alarmEnabled s"
  "alarmSilenced (clearAlarms s) = alarmSilenced s"
  "vitals (clearAlarms s) = vitals s"
  "timers (clearAlarms s) = timers s"
  "clock (clearAlarms s) = clock s"
  "nextTimerId (clearAlarms s) = nextTimerId s"
  by (simp_all add: clearAlarms_def)

lemma checkAlarms_active:
  "alarmEnabled s \<Longrightarrow> \<not> alarmSilenced s \<Longrightarrow> alarmActive (checkAlarms s) \<longleftrightarrow> (\<exists>v. breach s v)"
  by (simp add: checkAlarms_evaluated alarms_empty_iff)

lemma checkAlarms_message:
  "alarmEnabled s \<Longrightarrow> \<not> alarmSilenced s \<Longrightarrow> checkAlarms_alarms s \<noteq> [] \<Longrightarrow>
   alarmMessage (checkAlarms s) = join '', '' (checkAlarms_alarms s)"
  by (simp add: checkAlarms_evaluated)

lemma new_monitor_fields [simp]:
  "vitals (new_monitor pg) HeartRate = 72"
  "vitals (new_monitor pg) Spo2 = 98"
  "vitals (new_monitor pg) RespiratoryRate = 16"
  "vitals (new_monitor pg) SystolicBP = 120"
  "vitals (new_monitor pg) DiastolicBP = 80"
  "vitals (new_monitor pg) Temperature = 36.5"
  "alarmEnabled (new_monitor pg) = True"
  "alarmSilenced (new_monitor pg) = False"
  "alarmActive (new_monitor pg) = False"
  "nibpMeasuring (new_monitor pg) = False"
  "nibpInterval (new_monitor pg) = 5"
  "nibpTimer (new_monitor pg) = None"
  "timers (new_monitor pg) = []"
  "clock (new_monitor pg) = 0"
  "nextTimerId (new_monitor pg) = 1"
  "currentRhythm (new_monitor pg) = ''NSR''"
  "isFrozen (new_monitor pg) = False"
  by (simp_all add: new_monitor_def setupAudio_def createAlarmSound_def
      updateSTDisplay_def updateRhythmDisplay_def abnormalRhythms_def)

lemma heartRate_45_alarms:
  "checkAlarms_alarms ((new_monitor pg)\<lparr>vitals := (vitals (new_monitor pg))(HeartRate := 45)\<rparr>) =
     [''heartRate: 45 (Normal: 60-100)'']"
  by (simp add: checkAlarms_alarms_eq vital_keys_def breach_def show_simps)

section \<open>Properties of the event loop\<close>

lemma run_until_idle:
  "next_timer t (timers s) = None \<Longrightarrow> run_until t s = s\<lparr>clock := max (clock s) t\<rparr>"
  by (subst run_until.simps) simp

lemma run_until_fire:
  "next_timer t (timers s) = Some tm \<Longrightarrow> run_until t s = run_until t (fire_timer tm s)"
  by (subst run_until.simps) simp

lemma next_timer_None: "next_timer t tms = None \<longleftrightarrow> (\<forall>tm\<in>set tms. t < due tm)"
  by (induction tms) (auto split: option.splits if_splits dest: next_timer_Some)

text \<open>
  An invariant of the state that every firing timer keeps holds when the loop comes to
  rest, where no timer due by \<open>t\<close> is left.
\<close>

lemma run_until_invariant:
  assumes "P s"
    and "\<And>s' tm. P s' \<Longrightarrow> tm \<in> set (timers s') \<Longrightarrow> due tm \<le> t \<Longrightarrow> P (fire_timer tm s')"
    and "\<And>s'. P s' \<Longrightarrow> \<forall>tm\<in>set (timers s'). t < due tm \<Longrightarrow> Q (s'\<lparr>clock := max (clock s') t\<rparr>)"
  shows "Q (run_until t s)"
  using assms
proof (induction t s rule: run_until.induct)
  case (1 t s)
  show ?case
  proof (cases "next_timer t (timers s)")
    case None
    then have "\<forall>tm\<in>set (timers s). t < due tm" by (simp add: next_timer_None)
    with "1.prems"(1,3) have "Q (s\<lparr>clock := max (clock s) t\<rparr>)" by blast
    with None show ?thesis by (simp add: run_until_idle)
  next
    case (Some tm)
    then have "tm \<in> set (timers s)" "due tm \<le> t" using next_timer_Some by blast+
    with "1.prems"(1,2) have "P (fire_timer tm s)" by blast
    with "1.IH" [OF Some] "1.prems"(2,3) have "Q (run_until t (fire_timer tm s))" by blast
    with Some show ?thesis by (simp add: run_until_fire)
  qed
qed

lemma fire_frame [simp]:
  "vitals (fire cb s) = vitals s"
  "alarmEnabled (fire cb s) = alarmEnabled s"
  "alarmActive (fire cb s) = alarmActive s"
  "alarmStatusActive (fire cb s) = alarmStatusActive s"
  "alarmMessage (fire cb s) = alarmMessage s"
  "audioEnabled (fire cb s) = audioEnabled s"
  "audioContext (fire cb s) = audioContext s"
  "alarmSounds (fire cb s) = alarmSounds s"
  "overlayAlarm (fire cb s) = overlayAlarm s"
  "nibpInterval (fire cb s) = nibpInterval s"
  "clock (fire cb s) = clock s"
  by (cases cb; simp add: setTimeout_def startNIBPMeasurement_def Let_def split: prod.splits)+

lemma fire_alarmSilenced:
  "alarmSilenced (fire cb s) = (if cb = SilenceExpire then False else alarmSilenced s)"
  by (cases cb) (simp_all add: setTimeout_def startNIBPMeasurement_def Let_def split: prod.splits)

lemma fire_nibpMeasuring: "nibpMeasuring s \<Longrightarrow> nibpMeasuring (fire cb s)"
  by (cases cb) (simp_all add: setTimeout_def startNIBPMeasurement_def Let_def split: prod.splits)

lemma fire_keeps_timers: "tm \<in> set (timers s) \<Longrightarrow> tm \<in> set (timers (fire cb s))"
  by (cases cb) (simp_all add: setTimeout_def startNIBPMeasurement_def Let_def split: prod.splits)

lemma fire_adds_no_silence_timer:
  "tm \<in> set (timers (fire cb s)) \<Longrightarrow> callback tm = SilenceExpire \<Longrightarrow> tm \<in> set (timers s)"
  by (cases cb) (auto simp: setTimeout_def startNIBPMeasurement_def Let_def split: prod.splits if_splits)

text \<open>Time passing changes nothing of the alarm state but the silence flag.\<close>

lemma run_until_frame:
  "vitals (run_until t s) = vitals s"
  "alarmEnabled (run_until t s) = alarmEnabled s"
  "alarmActive (run_until t s) = alarmActive s"
  "alarmStatusActive (run_until t s) = alarmStatusActive s"
  "alarmMessage (run_until t s) = alarmMessage s"
  "alarmSounds (run_until t s) = alarmSounds s"
  "overlayAlarm (run_until t s) = overlayAlarm s"
  by (rule run_until_invariant [where P = "\<lambda>s'. vitals s' = vitals s"], simp_all add: fire_timer_def,
      rule run_until_invariant [where P = "\<lambda>s'. alarmEnabled s' = alarmEnabled s"], simp_all add: fire_timer_def,
      rule run_until_invariant [where P = "\<lambda>s'. alarmActive s' = alarmActive s"], simp_all add: fire_timer_def,
      rule run_until_invariant [where P = "\<lambda>s'. alarmStatusActive s' = alarmStatusActive s"], simp_all add: fire_timer_def,
      rule run_until_invariant [where P = "\<lambda>s'. alarmMessage s' = alarmMessage s"], simp_all add: fire_timer_def,
      rule run_until_invariant [where P = "\<lambda>s'. alarmSounds s' = alarmSounds s"], simp_all add: fire_timer_def,
      rule run_until_invariant [where P = "\<lambda>s'. overlayAlarm s' = overlayAlarm s"], simp_all add: fire_timer_def)

lemma run_until_clock: "clock (run_until t s) = max (clock s) t"
  by (rule run_until_invariant [where P = "\<lambda>s'. clock s \<le> clock s' \<and> clock s' \<le> max (clock s) t"])
     (auto simp: fire_timer_def)

lemma run_until_nibpMeasuring: "nibpMeasuring s \<Longrightarrow> nibpMeasuring (run_until t s)"
  by (rule run_until_invariant [where P = nibpMeasuring]) (simp_all add: fire_timer_def fire_nibpMeasuring)

text \<open>A timer that is due after \<open>t\<close> is still pending at \<open>t\<close>: only firing removes timers.\<close>

lemma run_until_keeps_later_timer:
  assumes "tm \<in> set (timers s)" and "t < due tm"
  shows "tm \<in> set (timers (run_until t s))"
proof (rule run_until_invariant [where P = "\<lambda>s'. tm \<in> set (timers s')"])
  show "tm \<in> set (timers s)" by fact
next
  fix s' :: monitor and tm'
  assume "tm \<in> set (timers s')" "tm' \<in> set (timers s')" "due tm' \<le> t"
  with assms(2) have "tm \<noteq> tm'" and "tm \<in> set (timers s')" by auto
  then have "tm \<in> set (remove1 tm' (timers s'))" by simp
  then show "tm \<in> set (timers (fire_timer tm' s'))"
    unfolding fire_timer_def by (intro fire_keeps_timers) simp
qed simp

text \<open>
  The silence flag at time \<open>t\<close>: unchanged when no silence timer is due by then, false
  when one is.
\<close>

lemma run_until_silence_kept:
  assumes "\<forall>tm\<in>set (timers s). callback tm = SilenceExpire \<longrightarrow> t < due tm"
  shows "alarmSilenced (run_until t s) = alarmSilenced s"
proof (rule run_until_invariant [where P = "\<lambda>s'. alarmSilenced s' = alarmSilenced s \<and>
    (\<forall>tm\<in>set (timers s'). callback tm = SilenceExpire \<longrightarrow> t < due tm)"])
  show "alarmSilenced s = alarmSilenced s \<and>
    (\<forall>tm\<in>set (timers s). callback tm = SilenceExpire \<longrightarrow> t < due tm)"
    using assms by simp
next
  fix s' :: monitor and tm'
  assume inv: "alarmSilenced s' = alarmSilenced s \<and>
    (\<forall>tm\<in>set (timers s'). callback tm = SilenceExpire \<longrightarrow> t < due tm)"
    and mem: "tm' \<in> set (timers s')" and d: "due tm' \<le> t"
  let ?s0 = "s'\<lparr>clock := max (clock s') (due tm'), timers := remove1 tm' (timers s')\<rparr>"
  from inv mem d have cb: "callback tm' \<noteq> SilenceExpire" by auto
  have "\<forall>tm\<in>set (timers (fire (callback tm') ?s0)). callback tm = SilenceExpire \<longrightarrow> t < due tm"
  proof (intro ballI impI)
    fix tm assume "tm \<in> set (timers (fire (callback tm') ?s0))" "callback tm = SilenceExpire"
    then have "tm \<in> set (timers ?s0)" by (rule fire_adds_no_silence_timer)
    then have "tm \<in> set (timers s')" using set_remove1_subset [of tm' "timers s'"] by auto
    with inv \<open>callback tm = SilenceExpire\<close> show "t < due tm" by blast
  qed
  with inv cb show "alarmSilenced (fire_timer tm' s') = alarmSilenced s \<and>
    (\<forall>tm\<in>set (timers (fire_timer tm' s')). callback tm = SilenceExpire \<longrightarrow> t < due tm)"
    by (simp add: fire_timer_def fire_alarmSilenced)
qed simp

lemma run_until_silence_expired:
  assumes "tm \<in> set (timers s)" and "callback tm = SilenceExpire" and "due tm \<le> t"
  shows "alarmSilenced (run_until t s) = False"
proof (rule run_until_invariant [where P = "\<lambda>s'. \<not> alarmSilenced s' \<or> tm \<in> set (timers s')"])
  show "\<not> alarmSilenced s \<or> tm \<in> set (timers s)" using assms(1) by simp
next
  fix s' :: monitor and tm'
  assume inv: "\<not> alarmSilenced s' \<or> tm \<in> set (timers s')"
    and mem: "tm' \<in> set (timers s')" and d: "due tm' \<le> t"
  let ?s0 = "s'\<lparr>clock := max (clock s') (due tm'), timers := remove1 tm' (timers s')\<rparr>"
  show "\<not> alarmSilenced (fire_timer tm' s') \<or> tm \<in> set (timers (fire_timer tm' s'))"
  proof (cases "tm' = tm")
    case True
    with assms(2) show ?thesis by (simp add: fire_timer_def fire_alarmSilenced)
  next
    case False
    show ?thesis
    proof (cases "alarmSilenced s'")
      case False
      then show ?thesis by (simp add: fire_timer_def fire_alarmSilenced)
    next
      case True
      with inv have "tm \<in> set (timers s')" by simp
      with \<open>tm' \<noteq> tm\<close> have "tm \<in> set (timers ?s0)" by simp
      then have "tm \<in> set (timers (fire (callback tm') ?s0))" by (rule fire_keeps_timers)
      then show ?thesis by (simp add: fire_timer_def)
    qed
  qed
next
  fix s' :: monitor
  assume "\<not> alarmSilenced s' \<or> tm \<in> set (timers s')" "\<forall>tm\<in>set (timers s'). t < due tm"
  with assms(3) show "alarmSilenced (s'\<lparr>clock := max (clock s') t\<rparr>) = False" by auto
qed

section \<open>Properties of the silence command\<close>

lemma silenceAlarm_fields [simp]:
  "alarmSilenced (silenceAlarm s) = True"
  "alarmActive (silenceAlarm s) = False"
  "alarmEnabled (silenceAlarm s) = alarmEnabled s"
  "vitals (silenceAlarm s) = vitals s"
  "clock (silenceAlarm s) = clock s"
  "timers (silenceAlarm s) = timers s @ [Timer (nextTimerId s) (clock s + 120000) SilenceExpire]"
  by (simp_all add: silenceAlarm_def setTimeout_def clearAlarms_def)

lemma silenced_until_timer_fires:
  assumes "\<forall>tm\<in>set (timers s). callback tm \<noteq> SilenceExpire" and "d < 120000"
  shows "alarmSilenced (run_until (clock s + d) (silenceAlarm s)) = True"
proof -
  have "\<forall>tm\<in>set (timers (silenceAlarm s)). callback tm = SilenceExpire \<longrightarrow> clock s + d < due tm"
    using assms by auto
  then have "alarmSilenced (run_until (clock s + d) (silenceAlarm s)) = alarmSilenced (silenceAlarm s)"
    by (rule run_until_silence_kept)
  then show ?thesis by simp
qed

lemma silence_over_after_120000:
  "alarmSilenced (run_until (clock s + 120000) (silenceAlarm s)) = False"
  by (rule run_until_silence_expired [where tm = "Timer (nextTimerId s) (clock s + 120000) SilenceExpire"])
     simp_all

lemma updateVital_skipped:
  "\<not> alarmEnabled s \<or> alarmSilenced s \<Longrightarrow>
   updateVital v x s = s\<lparr>vitals := (vitals s)(v := x)\<rparr>"
  by (simp add: updateVital_def checkAlarms_def)

lemmas run_simps =
  new_monitor_def example_page_def setupAudio_def createAlarmSound_def
  updateSTDisplay_def updateRhythmDisplay_def abnormalRhythms_def startNIBPMeasurement_def
  stopNIBPMeasurement_def setTimeout_def clearTimeout_def fire_timer_def run_until_idle
  run_until_fire silenceAlarm_def clearAlarms_def updateVital_def checkAlarms_def
  triggerAlarm_def vital_keys_def Let_def

section \<open>Properties of the blood-pressure cycle\<close>

lemma exec_keeps_nibpMeasuring:
  "nibpMeasuring s \<Longrightarrow> c \<noteq> StopNIBP \<Longrightarrow> nibpMeasuring (exec c s)"
  by (cases c)
     (simp_all add: updateVital_def checkAlarms_def triggerAlarm_def createAlarmSound_def
        clearAlarms_def setAlarmEnabled_def testAlarm_def silenceAlarm_def setTimeout_def
        resetAlarms_def toggleFreeze_def updateSTDisplay_def updateRhythmDisplay_def
        startNIBPMeasurement_def run_until_nibpMeasuring Let_def split: prod.splits)

lemma exec_all_keeps_nibpMeasuring:
  "nibpMeasuring s \<Longrightarrow> StopNIBP \<notin> set cs \<Longrightarrow> nibpMeasuring (exec_all cs s)"
  by (induction cs arbitrary: s) (auto simp: exec_keeps_nibpMeasuring)

lemma startNIBPMeasurement_sets_flag: "nibpMeasuring (startNIBPMeasurement s) = True"
  by (simp add: startNIBPMeasurement_def setTimeout_def)

lemma stopNIBPMeasurement_clears_flag: "nibpMeasuring (stopNIBPMeasurement s) = False"
  by (simp add: stopNIBPMeasurement_def clearTimeout_def Let_def split: option.splits)

section \<open>Claims\<close>

text \<open>
  Claim C1. For every vital, \<open>checkAlarms\<close> puts a message for it into \<open>alarms\<close> if and
  only if its value is below the low limit or above the high limit; a value equal to
  either limit gives none. The array holds, in key order, exactly the messages
  \<open><name>: <value> (Normal: <low>-<high>)\<close> of the vitals in breach; when alarms are
  enabled and not silenced the alarm is active exactly when the array is not empty.
  A fresh monitor whose heart rate is set to 45 ends with the alarms
  \<open>[heartRate: 45 (Normal: 60-100)]\<close>, that text as its message, and an active alarm.
\<close>

theorem checkAlarms_breach_iff_outside_limits:
  "(breach_message v (vitals s v) \<in> set (checkAlarms_alarms s)
      \<longleftrightarrow> vitals s v < low (alarmLimits v) \<or> vitals s v > high (alarmLimits v))
   \<and> (vitals s v = low (alarmLimits v) \<or> vitals s v = high (alarmLimits v)
        \<longrightarrow> breach_message v (vitals s v) \<notin> set (checkAlarms_alarms s))
   \<and> checkAlarms_alarms s =
        map (\<lambda>k. vital_name k @ '': '' @ number_to_string (vitals s k) @ '' (Normal: '' @
                  number_to_string (low (alarmLimits k)) @ ''-'' @
                  number_to_string (high (alarmLimits k)) @ '')'')
            (filter (\<lambda>k. vitals s k < low (alarmLimits k) \<or> vitals s k > high (alarmLimits k))
               vital_keys)
   \<and> (alarmEnabled s \<and> \<not> alarmSilenced s \<longrightarrow>
        (alarmActive (checkAlarms s) \<longleftrightarrow> checkAlarms_alarms s \<noteq> []))
   \<and> checkAlarms_alarms (updateVital HeartRate 45 (new_monitor pg)) =
        [''heartRate: 45 (Normal: 60-100)'']
   \<and> alarmMessage (updateVital HeartRate 45 (new_monitor pg)) = ''heartRate: 45 (Normal: 60-100)''
   \<and> alarmActive (updateVital HeartRate 45 (new_monitor pg)) = True"
proof -
  let ?s1 = "(new_monitor pg)\<lparr>vitals := (vitals (new_monitor pg))(HeartRate := 45)\<rparr>"
  have iff: "breach_message v (vitals s v) \<in> set (checkAlarms_alarms s)
      \<longleftrightarrow> vitals s v < low (alarmLimits v) \<or> vitals s v > high (alarmLimits v)"
    by (simp add: breach_message_mem breach_def)
  have boundary: "vitals s v = low (alarmLimits v) \<or> vitals s v = high (alarmLimits v)
      \<longrightarrow> breach_message v (vitals s v) \<notin> set (checkAlarms_alarms s)"
    using limits_ordered [of v] by (auto simp: iff)
  have format: "checkAlarms_alarms s =
        map (\<lambda>k. vital_name k @ '': '' @ number_to_string (vitals s k) @ '' (Normal: '' @
                  number_to_string (low (alarmLimits k)) @ ''-'' @
                  number_to_string (high (alarmLimits k)) @ '')'')
            (filter (\<lambda>k. vitals s k < low (alarmLimits k) \<or> vitals s k > high (alarmLimits k))
               vital_keys)"
    by (simp add: checkAlarms_alarms_eq breach_message_def breach_def [abs_def])
  have active: "alarmEnabled s \<and> \<not> alarmSilenced s \<longrightarrow>
        (alarmActive (checkAlarms s) \<longleftrightarrow> checkAlarms_alarms s \<noteq> [])"
    by (simp add: checkAlarms_active alarms_empty_iff)
  have on: "alarmEnabled ?s1" "\<not> alarmSilenced ?s1" by simp_all
  have al: "checkAlarms_alarms ?s1 = [''heartRate: 45 (Normal: 60-100)'']"
    by (rule heartRate_45_alarms)
  have upd: "updateVital HeartRate 45 (new_monitor pg) =
      triggerAlarm [''heartRate: 45 (Normal: 60-100)'']
        (?s1\<lparr>overlayAlarm := snd (check_each vital_keys (vitals ?s1) ([], overlayAlarm ?s1))\<rparr>)"
    unfolding updateVital_def by (simp only: checkAlarms_evaluated [OF on] al) simp
  have ex1: "checkAlarms_alarms (updateVital HeartRate 45 (new_monitor pg)) =
        [''heartRate: 45 (Normal: 60-100)'']"
  proof -
    have "vitals (updateVital HeartRate 45 (new_monitor pg)) = vitals ?s1" by (simp add: upd)
    then show ?thesis using al by (simp add: checkAlarms_alarms_eq breach_def [abs_def])
  qed
  have ex2: "alarmMessage (updateVital HeartRate 45 (new_monitor pg)) = ''heartRate: 45 (Normal: 60-100)''"
    by (simp add: upd)
  have ex3: "alarmActive (updateVital HeartRate 45 (new_monitor pg)) = True"
    by (simp add: upd)
  from iff boundary format active ex1 ex2 ex3 show ?thesis by blast
qed

theorem checkAlarms_breach_iff_outside_limits_witness:
  "breach_message Temperature 38.2 = ''temperature: 38.2 (Normal: 36-37.5)''
   \<and> breach_message Temperature 38.2
        \<in> set (checkAlarms_alarms ((new_monitor example_page)\<lparr>vitals := (\<lambda>_. 38.2)\<rparr>))
   \<and> breach_message HeartRate 60
        \<notin> set (checkAlarms_alarms ((new_monitor example_page)\<lparr>vitals := (\<lambda>_. 60)\<rparr>))
   \<and> alarmActive (checkAlarms ((new_monitor example_page)\<lparr>vitals := (\<lambda>_. 60)\<rparr>)) = True"
proof -
  let ?hot = "(new_monitor example_page)\<lparr>vitals := (\<lambda>_. 38.2)\<rparr>"
  let ?sixty = "(new_monitor example_page)\<lparr>vitals := (\<lambda>_. 60)\<rparr>"
  note hot = checkAlarms_breach_iff_outside_limits [of Temperature ?hot example_page]
  note sixty = checkAlarms_breach_iff_outside_limits [of HeartRate ?sixty example_page]
  note sixty' = checkAlarms_breach_iff_outside_limits [of Spo2 ?sixty example_page]
  have msg: "breach_message Temperature 38.2 = ''temperature: 38.2 (Normal: 36-37.5)''"
    by (simp add: show_simps)
  have "vitals ?hot Temperature > high (alarmLimits Temperature)" by simp
  with hot [THEN conjunct1]
  have "breach_message Temperature (vitals ?hot Temperature) \<in> set (checkAlarms_alarms ?hot)"
    by blast
  then have a: "breach_message Temperature 38.2 \<in> set (checkAlarms_alarms ?hot)" by simp
  have "vitals ?sixty HeartRate = low (alarmLimits HeartRate)" by simp
  with sixty [THEN conjunct2, THEN conjunct1]
  have "breach_message HeartRate (vitals ?sixty HeartRate) \<notin> set (checkAlarms_alarms ?sixty)"
    by blast
  then have b: "breach_message HeartRate 60 \<notin> set (checkAlarms_alarms ?sixty)" by simp
  have "vitals ?sixty Spo2 < low (alarmLimits Spo2)" by simp
  with sixty' [THEN conjunct1]
  have "breach_message Spo2 (vitals ?sixty Spo2) \<in> set (checkAlarms_alarms ?sixty)"
    by blast
  then have ne: "checkAlarms_alarms ?sixty \<noteq> []" by auto
  have "alarmEnabled ?sixty \<and> \<not> alarmSilenced ?sixty" by simp
  with sixty [THEN conjunct2, THEN conjunct2, THEN conjunct2, THEN conjunct1] ne
  have c: "alarmActive (checkAlarms ?sixty) = True" by blast
  from msg a b c show ?thesis by blast
qed

text \<open>
  Claim C2, as amended. While \<open>alarmEnabled\<close> is false or \<open>alarmSilenced\<close> is true,
  \<open>checkAlarms\<close> returns the state unchanged. After a \<open>silenceAlarm()\<close> made while no
  earlier silence timer is pending, the flag stays set for every time less than 120000 ms
  later: there \<open>checkAlarms\<close>, and \<open>updateVital\<close> with any value, changes nothing of the
  alarm state and the alarm stays inactive. At 120000 ms the flag is clear, and with
  alarms enabled and a vital in breach \<open>checkAlarms\<close> makes the alarm active again.
\<close>

theorem checkAlarms_skipped_during_silence:
  "(\<not> alarmEnabled s \<or> alarmSilenced s \<longrightarrow> checkAlarms s = s)
   \<and> ((\<forall>tm\<in>set (timers s). callback tm \<noteq> SilenceExpire) \<and> d < 120000 \<longrightarrow>
         alarmSilenced (run_until (clock s + d) (silenceAlarm s)) = True
       \<and> checkAlarms (run_until (clock s + d) (silenceAlarm s))
           = run_until (clock s + d) (silenceAlarm s)
       \<and> alarmActive (run_until (clock s + d) (silenceAlarm s)) = False
       \<and> alarmActive (updateVital v x (run_until (clock s + d) (silenceAlarm s))) = False)
   \<and> alarmSilenced (run_until (clock s + 120000) (silenceAlarm s)) = False
   \<and> (alarmEnabled s \<and> (vitals s w < low (alarmLimits w) \<or> vitals s w > high (alarmLimits w)) \<longrightarrow>
         alarmActive (checkAlarms (run_until (clock s + 120000) (silenceAlarm s))) = True)"
proof -
  have skip: "\<not> alarmEnabled s \<or> alarmSilenced s \<longrightarrow> checkAlarms s = s"
    by (simp add: checkAlarms_skipped)
  have during: "(\<forall>tm\<in>set (timers s). callback tm \<noteq> SilenceExpire) \<and> d < 120000 \<longrightarrow>
         alarmSilenced (run_until (clock s + d) (silenceAlarm s)) = True
       \<and> checkAlarms (run_until (clock s + d) (silenceAlarm s))
           = run_until (clock s + d) (silenceAlarm s)
       \<and> alarmActive (run_until (clock s + d) (silenceAlarm s)) = False
       \<and> alarmActive (updateVital v x (run_until (clock s + d) (silenceAlarm s))) = False"
  proof
    assume "(\<forall>tm\<in>set (timers s). callback tm \<noteq> SilenceExpire) \<and> d < 120000"
    then have sil: "alarmSilenced (run_until (clock s + d) (silenceAlarm s)) = True"
      by (simp add: silenced_until_timer_fires)
    have off: "alarmActive (run_until (clock s + d) (silenceAlarm s)) = False"
      by (simp add: run_until_frame)
    from sil off show "alarmSilenced (run_until (clock s + d) (silenceAlarm s)) = True
       \<and> checkAlarms (run_until (clock s + d) (silenceAlarm s))
           = run_until (clock s + d) (silenceAlarm s)
       \<and> alarmActive (run_until (clock s + d) (silenceAlarm s)) = False
       \<and> alarmActive (updateVital v x (run_until (clock s + d) (silenceAlarm s))) = False"
      by (simp add: checkAlarms_skipped updateVital_skipped)
  qed
  have over: "alarmSilenced (run_until (clock s + 120000) (silenceAlarm s)) = False"
    by (rule silence_over_after_120000)
  have again: "alarmEnabled s \<and> (vitals s w < low (alarmLimits w) \<or> vitals s w > high (alarmLimits w)) \<longrightarrow>
         alarmActive (checkAlarms (run_until (clock s + 120000) (silenceAlarm s))) = True"
  proof
    let ?s' = "run_until (clock s + 120000) (silenceAlarm s)"
    assume a: "alarmEnabled s \<and> (vitals s w < low (alarmLimits w) \<or> vitals s w > high (alarmLimits w))"
    then have "alarmEnabled ?s'" and "breach ?s' w"
      by (simp_all add: run_until_frame breach_def)
    with over show "alarmActive (checkAlarms ?s') = True"
      by (auto simp: checkAlarms_active)
  qed
  from skip during over again show ?thesis by blast
qed

theorem checkAlarms_skipped_during_silence_witness:
  "alarmSilenced (exec_all [UpdateVital HeartRate 45, SilenceAlarm, Wait 119999] (new_monitor example_page)) = True
   \<and> alarmActive (exec_all [UpdateVital HeartRate 45, SilenceAlarm, Wait 119999, UpdateVital HeartRate 44]
        (new_monitor example_page)) = False
   \<and> alarmSilenced (exec_all [UpdateVital HeartRate 45, SilenceAlarm, Wait 120000] (new_monitor example_page)) = False
   \<and> alarmActive (checkAlarms (exec_all [UpdateVital HeartRate 45, SilenceAlarm, Wait 120000]
        (new_monitor example_page))) = True"
proof -
  let ?s = "updateVital HeartRate 45 (new_monitor example_page)"
  note th = checkAlarms_skipped_during_silence [of ?s 119999 HeartRate 44 HeartRate]
  have pre: "\<forall>tm\<in>set (timers ?s). callback tm \<noteq> SilenceExpire" "clock ?s = 0" "alarmEnabled ?s"
    "vitals ?s HeartRate < low (alarmLimits HeartRate)"
    by (simp_all add: run_simps)
  from th pre show ?thesis by simp
qed

text \<open>
  The claim C2 as it stands fails when an earlier silence timer is pending: the heart
  rate is in breach, the alarm is silenced at 0 and again at 100000 ms, and at 120000 ms,
  20000 ms after the second \<open>silenceAlarm()\<close>, \<open>checkAlarms\<close> makes the alarm active.
\<close>

theorem checkAlarms_skipped_during_silence_counterexample:
  "clock (exec_all [UpdateVital HeartRate 45, SilenceAlarm, Wait 100000, SilenceAlarm, Wait 20000]
      (new_monitor example_page)) = 120000
   \<and> alarmActive (exec_all [UpdateVital HeartRate 45, SilenceAlarm, Wait 100000, SilenceAlarm, Wait 20000]
      (new_monitor example_page)) = False
   \<and> alarmActive (checkAlarms
      (exec_all [UpdateVital HeartRate 45, SilenceAlarm, Wait 100000, SilenceAlarm, Wait 20000]
        (new_monitor example_page))) = True"
  by (simp add: run_simps)

text \<open>
  Claim C3, as amended. A second \<open>silenceAlarm()\<close> made less than 120000 ms after a
  first one cancels nothing: both timers are pending after it, and the first still
  fires 120000 ms after the first call and clears \<open>alarmSilenced\<close> then. When no silence
  timer was pending before the first call, the flag is set until that moment.
\<close>

theorem silenceAlarm_timers_stack:
  "d < 120000 \<longrightarrow>
     alarmSilenced (silenceAlarm (run_until (clock s + d) (silenceAlarm s))) = True
   \<and> Timer (nextTimerId s) (clock s + 120000) SilenceExpire
        \<in> set (timers (silenceAlarm (run_until (clock s + d) (silenceAlarm s))))
   \<and> Timer (nextTimerId (run_until (clock s + d) (silenceAlarm s))) (clock s + d + 120000) SilenceExpire
        \<in> set (timers (silenceAlarm (run_until (clock s + d) (silenceAlarm s))))
   \<and> alarmSilenced (run_until (clock s + 120000)
        (silenceAlarm (run_until (clock s + d) (silenceAlarm s)))) = False
   \<and> ((\<forall>tm\<in>set (timers s). callback tm \<noteq> SilenceExpire) \<and> d \<le> e \<and> e < 120000 \<longrightarrow>
        alarmSilenced (run_until (clock s + e)
          (silenceAlarm (run_until (clock s + d) (silenceAlarm s)))) = True)"
proof
  assume d: "d < 120000"
  let ?first = "Timer (nextTimerId s) (clock s + 120000) SilenceExpire"
  let ?s1 = "run_until (clock s + d) (silenceAlarm s)"
  let ?s2 = "silenceAlarm ?s1"
  have ck: "clock ?s1 = clock s + d" by (simp add: run_until_clock)
  have "?first \<in> set (timers (silenceAlarm s))" by simp
  then have pending1: "?first \<in> set (timers ?s1)"
    using d by (intro run_until_keeps_later_timer) simp_all
  then have both1: "?first \<in> set (timers ?s2)" by simp
  have both2: "Timer (nextTimerId ?s1) (clock s + d + 120000) SilenceExpire \<in> set (timers ?s2)"
    by (simp add: ck)
  have early: "alarmSilenced (run_until (clock s + 120000) ?s2) = False"
    using both1 by (rule run_until_silence_expired) simp_all
  have until: "(\<forall>tm\<in>set (timers s). callback tm \<noteq> SilenceExpire) \<and> d \<le> e \<and> e < 120000 \<longrightarrow>
        alarmSilenced (run_until (clock s + e) ?s2) = True"
  proof
    assume a: "(\<forall>tm\<in>set (timers s). callback tm \<noteq> SilenceExpire) \<and> d \<le> e \<and> e < 120000"
    have "\<forall>tm\<in>set (timers ?s1). callback tm = SilenceExpire \<longrightarrow> clock s + e < due tm"
    proof (rule run_until_invariant [where P = "\<lambda>s'. \<forall>tm\<in>set (timers s').
        callback tm = SilenceExpire \<longrightarrow> clock s + e < due tm" and s = "silenceAlarm s"
        and t = "clock s + d"])
      show "\<forall>tm\<in>set (timers (silenceAlarm s)). callback tm = SilenceExpire \<longrightarrow> clock s + e < due tm"
        using a by auto
    next
      fix s' :: monitor and tm'
      assume inv: "\<forall>tm\<in>set (timers s'). callback tm = SilenceExpire \<longrightarrow> clock s + e < due tm"
      let ?s0 = "s'\<lparr>clock := max (clock s') (due tm'), timers := remove1 tm' (timers s')\<rparr>"
      show "\<forall>tm\<in>set (timers (fire_timer tm' s')). callback tm = SilenceExpire \<longrightarrow> clock s + e < due tm"
      proof (intro ballI impI)
        fix tm assume "tm \<in> set (timers (fire_timer tm' s'))" and cb: "callback tm = SilenceExpire"
        then have "tm \<in> set (timers ?s0)"
          unfolding fire_timer_def by (rule fire_adds_no_silence_timer)
        then have "tm \<in> set (timers s')" using set_remove1_subset [of tm' "timers s'"] by auto
        with inv cb show "clock s + e < due tm" by blast
      qed
    qed simp
    then have "\<forall>tm\<in>set (timers ?s2). callback tm = SilenceExpire \<longrightarrow> clock s + e < due tm"
      using a by (auto simp: ck)
    then have "alarmSilenced (run_until (clock s + e) ?s2) = alarmSilenced ?s2"
      by (rule run_until_silence_kept)
    then show "alarmSilenced (run_until (clock s + e) ?s2) = True" by simp
  qed
  from both1 both2 early until
  show "alarmSilenced ?s2 = True \<and> ?first \<in> set (timers ?s2)
    \<and> Timer (nextTimerId ?s1) (clock s + d + 120000) SilenceExpire \<in> set (timers ?s2)
    \<and> alarmSilenced (run_until (clock s + 120000) ?s2) = False
    \<and> ((\<forall>tm\<in>set (timers s). callback tm \<noteq> SilenceExpire) \<and> d \<le> e \<and> e < 120000 \<longrightarrow>
        alarmSilenced (run_until (clock s + e) ?s2) = True)"
    by simp
qed

theorem silenceAlarm_timers_stack_witness:
  "timers (exec_all [SilenceAlarm, Wait 100000, SilenceAlarm] (new_monitor example_page))
     = [Timer 1 120000 SilenceExpire, Timer 2 220000 SilenceExpire]
   \<and> alarmSilenced (exec_all [SilenceAlarm, Wait 100000, SilenceAlarm, Wait 19999]
        (new_monitor example_page)) = True
   \<and> alarmSilenced (exec_all [SilenceAlarm, Wait 100000, SilenceAlarm, Wait 20000]
        (new_monitor example_page)) = False"
proof -
  let ?s = "new_monitor example_page"
  note th = silenceAlarm_timers_stack [of 100000 ?s 119999]
  have pre: "\<forall>tm\<in>set (timers ?s). callback tm \<noteq> SilenceExpire" "clock ?s = 0" by simp_all
  have tms: "timers (exec_all [SilenceAlarm, Wait 100000, SilenceAlarm] ?s)
     = [Timer 1 120000 SilenceExpire, Timer 2 220000 SilenceExpire]"
    by (simp add: run_simps)
  from th pre tms show ?thesis by (simp add: run_until_clock)
qed

text \<open>
  The claim C3 as it stands fails: the alarm is silenced at 0 and again at 100000 ms; at
  119999 ms the flag is set, and at 120000 ms, 20000 ms after the most recent call and
  with that call's timer still pending, it is clear.
\<close>

theorem silenceAlarm_timers_stack_counterexample:
  "alarmSilenced (exec_all [SilenceAlarm, Wait 100000, SilenceAlarm, Wait 19999]
      (new_monitor example_page)) = True
   \<and> alarmSilenced (exec_all [SilenceAlarm, Wait 100000, SilenceAlarm, Wait 20000]
      (new_monitor example_page)) = False
   \<and> clock (exec_all [SilenceAlarm, Wait 100000, SilenceAlarm, Wait 20000]
      (new_monitor example_page)) = 120000
   \<and> timers (exec_all [SilenceAlarm, Wait 100000, SilenceAlarm, Wait 20000]
      (new_monitor example_page)) = [Timer 2 220000 SilenceExpire]"
  by (simp add: run_simps)

text \<open>
  Claim C4 on the code. A measurement is started at 0 and stopped at 1000 ms. The stop
  shows \<open>Stopped\<close> and clears \<open>nibpTimer\<close>, which holds no handle yet; the timer of the
  measurement itself stays on the queue. At 3000 ms the status is \<open>Deflating...\<close>, at
  5000 ms it is \<open>Complete\<close> and a retrigger is scheduled, and at 305000 ms the retrigger
  starts a new measurement.
\<close>

theorem stopNIBPMeasurement_leaves_cycle_timers:
  "nibpStatus (exec_all [StartNIBP, Wait 1000, StopNIBP] (new_monitor example_page)) = ''Stopped''
   \<and> timers (exec_all [StartNIBP, Wait 1000, StopNIBP] (new_monitor example_page))
       = [Timer 1 3000 NibpDeflating]
   \<and> nibpStatus (exec_all [StartNIBP, Wait 1000, StopNIBP, Wait 2000] (new_monitor example_page))
       = ''Deflating...''
   \<and> nibpStatus (exec_all [StartNIBP, Wait 1000, StopNIBP, Wait 2000, Wait 2000]
       (new_monitor example_page)) = ''Complete''
   \<and> timers (exec_all [StartNIBP, Wait 1000, StopNIBP, Wait 2000, Wait 2000]
       (new_monitor example_page)) = [Timer 3 305000 NibpRetrigger]
   \<and> nibpStatus (exec_all [StartNIBP, Wait 1000, StopNIBP, Wait 2000, Wait 2000, Wait 300000]
       (new_monitor example_page)) = ''Measuring...''"
  by (simp add: run_simps)

theorem stopNIBPMeasurement_leaves_cycle_timers_witness:
  "nibpStatus (exec (Wait 2000) (exec_all [StartNIBP, Wait 1000, StopNIBP] (new_monitor example_page)))
     \<noteq> ''Stopped''"
proof -
  have "exec (Wait 2000) (exec_all [StartNIBP, Wait 1000, StopNIBP] (new_monitor example_page))
    = exec_all [StartNIBP, Wait 1000, StopNIBP, Wait 2000] (new_monitor example_page)"
    by simp
  with stopNIBPMeasurement_leaves_cycle_timers show ?thesis by simp
qed

text \<open>
  Claim C5 on the code. On a fresh monitor, whose interval is 5 minutes, a measurement
  started at 0 shows \<open>Measuring...\<close>, at 3000 ms \<open>Deflating...\<close>, at 5000 ms \<open>Complete\<close>,
  and a retrigger is pending for 305000 ms. When it fires, \<open>nibpMeasuring\<close> is still set
  and \<open>startNIBPMeasurement\<close> returns at once: the status stays \<open>Complete\<close> and no timer
  is left, so no further measurement follows.
\<close>

theorem nibp_retrigger_starts_no_cycle:
  "nibpStatus (exec_all [StartNIBP] (new_monitor example_page)) = ''Measuring...''
   \<and> nibpStatus (exec_all [StartNIBP, Wait 2999] (new_monitor example_page)) = ''Measuring...''
   \<and> nibpStatus (exec_all [StartNIBP, Wait 3000] (new_monitor example_page)) = ''Deflating...''
   \<and> nibpStatus (exec_all [StartNIBP, Wait 4999] (new_monitor example_page)) = ''Deflating...''
   \<and> nibpStatus (exec_all [StartNIBP, Wait 5000] (new_monitor example_page)) = ''Complete''
   \<and> timers (exec_all [StartNIBP, Wait 5000] (new_monitor example_page))
       = [Timer 3 305000 NibpRetrigger]
   \<and> nibpMeasuring (exec_all [StartNIBP, Wait 5000] (new_monitor example_page)) = True
   \<and> nibpStatus (exec_all [StartNIBP, Wait 305000] (new_monitor example_page)) = ''Complete''
   \<and> timers (exec_all [StartNIBP, Wait 305000] (new_monitor example_page)) = []
   \<and> nibpStatus (exec_all [StartNIBP, Wait 305000, Wait 3000] (new_monitor example_page))
       = ''Complete''"
  by (simp add: run_simps)

theorem nibp_retrigger_starts_no_cycle_witness:
  "nibpStatus (exec (Wait 305000) (exec StartNIBP (new_monitor example_page))) \<noteq> ''Measuring...''"
proof -
  have "exec (Wait 305000) (exec StartNIBP (new_monitor example_page))
    = exec_all [StartNIBP, Wait 305000] (new_monitor example_page)"
    by simp
  with nibp_retrigger_starts_no_cycle show ?thesis by simp
qed

text \<open>
  Claim C6. \<open>startNIBPMeasurement\<close> leaves \<open>nibpMeasuring\<close> set and \<open>stopNIBPMeasurement\<close>
  leaves it clear; no timer callback, the one that shows \<open>Complete\<close> included, and no
  command other than the stop clears it. While it is set, \<open>startNIBPMeasurement\<close> returns
  the state as it is, whether called by hand or by the retrigger timer: after a start,
  this holds through every session that has no stop in it.
\<close>

theorem nibpMeasuring_cleared_only_by_stop:
  "nibpMeasuring (startNIBPMeasurement s) = True
   \<and> nibpMeasuring (stopNIBPMeasurement s) = False
   \<and> (nibpMeasuring s \<longrightarrow> nibpMeasuring (fire cb s))
   \<and> (nibpMeasuring s \<and> c \<noteq> StopNIBP \<longrightarrow> nibpMeasuring (exec c s))
   \<and> (nibpMeasuring s \<longrightarrow> startNIBPMeasurement s = s \<and> fire NibpRetrigger s = s)
   \<and> (StopNIBP \<notin> set cs \<longrightarrow>
        nibpMeasuring (exec_all cs (startNIBPMeasurement s)) = True
      \<and> startNIBPMeasurement (exec_all cs (startNIBPMeasurement s))
          = exec_all cs (startNIBPMeasurement s)
      \<and> fire NibpRetrigger (exec_all cs (startNIBPMeasurement s))
          = exec_all cs (startNIBPMeasurement s))"
proof -
  have on: "nibpMeasuring (startNIBPMeasurement s) = True"
    by (rule startNIBPMeasurement_sets_flag)
  have off: "nibpMeasuring (stopNIBPMeasurement s) = False"
    by (rule stopNIBPMeasurement_clears_flag)
  have cb: "nibpMeasuring s \<longrightarrow> nibpMeasuring (fire cb s)"
    by (simp add: fire_nibpMeasuring)
  have cmd: "nibpMeasuring s \<and> c \<noteq> StopNIBP \<longrightarrow> nibpMeasuring (exec c s)"
    by (simp add: exec_keeps_nibpMeasuring)
  have noop: "nibpMeasuring s' \<longrightarrow> startNIBPMeasurement s' = s' \<and> fire NibpRetrigger s' = s'" for s'
    by (simp add: startNIBPMeasurement_def)
  have session: "StopNIBP \<notin> set cs \<longrightarrow>
        nibpMeasuring (exec_all cs (startNIBPMeasurement s)) = True
      \<and> startNIBPMeasurement (exec_all cs (startNIBPMeasurement s))
          = exec_all cs (startNIBPMeasurement s)
      \<and> fire NibpRetrigger (exec_all cs (startNIBPMeasurement s))
          = exec_all cs (startNIBPMeasurement s)"
  proof
    assume "StopNIBP \<notin> set cs"
    with on have "nibpMeasuring (exec_all cs (startNIBPMeasurement s))"
      by (simp add: exec_all_keeps_nibpMeasuring)
    with noop [of "exec_all cs (startNIBPMeasurement s)"]
    show "nibpMeasuring (exec_all cs (startNIBPMeasurement s)) = True
      \<and> startNIBPMeasurement (exec_all cs (startNIBPMeasurement s))
          = exec_all cs (startNIBPMeasurement s)
      \<and> fire NibpRetrigger (exec_all cs (startNIBPMeasurement s))
          = exec_all cs (startNIBPMeasurement s)"
      by simp
  qed
  from on off cb cmd noop [of s] session show ?thesis by blast
qed

theorem nibpMeasuring_cleared_only_by_stop_witness:
  "nibpStatus (exec_all [Wait 3000, Wait 2000] (startNIBPMeasurement (new_monitor example_page)))
     = ''Complete''
   \<and> nibpMeasuring (exec_all [Wait 3000, Wait 2000] (startNIBPMeasurement (new_monitor example_page)))
     = True
   \<and> startNIBPMeasurement (exec_all [Wait 3000, Wait 2000] (startNIBPMeasurement (new_monitor example_page)))
     = exec_all [Wait 3000, Wait 2000] (startNIBPMeasurement (new_monitor example_page))
   \<and> nibpMeasuring (stopNIBPMeasurement
       (exec_all [Wait 3000, Wait 2000] (startNIBPMeasurement (new_monitor example_page)))) = False"
proof -
  note th = nibpMeasuring_cleared_only_by_stop
    [of "new_monitor example_page" _ _ "[Wait 3000, Wait 2000]"]
  note th' = nibpMeasuring_cleared_only_by_stop
    [of "exec_all [Wait 3000, Wait 2000] (startNIBPMeasurement (new_monitor example_page))"]
  have st: "nibpStatus (exec_all [Wait 3000, Wait 2000] (startNIBPMeasurement (new_monitor example_page)))
     = ''Complete''"
    by (simp add: run_simps)
  have no_stop: "StopNIBP \<notin> set [Wait 3000, Wait 2000]" by simp
  from th no_stop have a: "nibpMeasuring (exec_all [Wait 3000, Wait 2000] (startNIBPMeasurement (new_monitor example_page)))
     = True
   \<and> startNIBPMeasurement (exec_all [Wait 3000, Wait 2000] (startNIBPMeasurement (new_monitor example_page)))
     = exec_all [Wait 3000, Wait 2000] (startNIBPMeasurement (new_monitor example_page))"
    by blast
  from th' have b: "nibpMeasuring (stopNIBPMeasurement
       (exec_all [Wait 3000, Wait 2000] (startNIBPMeasurement (new_monitor example_page)))) = False"
    by blast
  from st a b show ?thesis by blast
qed

text \<open>
  Claim C7. With the rhythm \<open>NSR\<close>, \<open>generateArrhythmiaECG\<close> draws no random number and
  does not read the time; on a phase in \<open>[0, 0.1)\<close> it returns \<open>sin(phase\<cdot>\<pi>\<cdot>10)\<cdot>0.2\<close>, on
  \<open>[0.1, 0.15)\<close> \<open>sin((phase - 0.1)\<cdot>\<pi>\<cdot>20)\<cdot>1.0\<close>, on \<open>[0.15, 0.3)\<close>
  \<open>sin((phase - 0.15)\<cdot>\<pi>\<cdot>6.67)\<cdot>0.3\<close>, and on \<open>[0.3, 1)\<close> it returns 0. At phase 0.05 the
  value is 0.2 at every time.
\<close>

theorem generateArrhythmiaECG_NSR_piecewise:
  "currentRhythm s = ''NSR'' \<longrightarrow>
     generateArrhythmiaECG s rnd p t = generateArrhythmiaECG s rnd' p t'
   \<and> (0 \<le> p \<and> p < 0.1 \<longrightarrow> generateArrhythmiaECG s rnd p t = sin (p * pi * 10) * 0.2)
   \<and> (0.1 \<le> p \<and> p < 0.15 \<longrightarrow> generateArrhythmiaECG s rnd p t = sin ((p - 0.1) * pi * 20) * 1.0)
   \<and> (0.15 \<le> p \<and> p < 0.3 \<longrightarrow> generateArrhythmiaECG s rnd p t = sin ((p - 0.15) * pi * 6.67) * 0.3)
   \<and> (0.3 \<le> p \<and> p < 1 \<longrightarrow> generateArrhythmiaECG s rnd p t = 0)
   \<and> generateArrhythmiaECG s rnd 0.05 t = 0.2"
  by (simp add: generateArrhythmiaECG_def)

theorem generateArrhythmiaECG_NSR_piecewise_witness:
  "generateArrhythmiaECG (new_monitor example_page) 0.7 0.05 12 = 0.2
   \<and> generateArrhythmiaECG (new_monitor example_page) 0.7 0.125 12 = 1
   \<and> generateArrhythmiaECG (new_monitor example_page) 0.7 0.15 12 = 0
   \<and> generateArrhythmiaECG (new_monitor example_page) 0.7 0.3 12 = 0
   \<and> generateArrhythmiaECG (new_monitor example_page) 0.7 0.999 12 = 0"
proof -
  have nsr: "currentRhythm (new_monitor example_page) = ''NSR''" by simp
  note th = generateArrhythmiaECG_NSR_piecewise [of "new_monitor example_page" "0.7" _ 12 "0.7" 12]
  from th [of "0.05"] nsr have a: "generateArrhythmiaECG (new_monitor example_page) 0.7 0.05 12 = 0.2"
    by blast
  from th [of "0.125"] nsr
  have "generateArrhythmiaECG (new_monitor example_page) 0.7 0.125 12 = sin ((0.125 - 0.1) * pi * 20) * 1.0"
    by simp
  then have b: "generateArrhythmiaECG (new_monitor example_page) 0.7 0.125 12 = 1" by simp
  from th [of "0.15"] nsr
  have "generateArrhythmiaECG (new_monitor example_page) 0.7 0.15 12 = sin ((0.15 - 0.15) * pi * 6.67) * 0.3"
    by simp
  then have c: "generateArrhythmiaECG (new_monitor example_page) 0.7 0.15 12 = 0" by simp
  from th [of "0.3"] nsr have d: "generateArrhythmiaECG (new_monitor example_page) 0.7 0.3 12 = 0"
    by simp
  from th [of "0.999"] nsr have e: "generateArrhythmiaECG (new_monitor example_page) 0.7 0.999 12 = 0"
    by simp
  from a b c d e show ?thesis by blast
qed

text \<open>
  Claim C8, as amended. With the rhythm \<open>AF\<close>, on \<open>[0.1, 0.15)\<close> and on \<open>[0.15, 0.3)\<close> the
  amplitude is the one of \<open>NSR\<close>; on \<open>[0, 0.1)\<close> it is \<open>sin(phase\<cdot>\<pi>\<cdot>10)\<close> times
  \<open>0.1 + (u - 0.5)\<cdot>0.3\<close>, where \<open>u\<close> is the random number of the sample: the scale that is
  perturbed is 0.1, not the 0.2 of \<open>NSR\<close>.
\<close>

theorem generateArrhythmiaECG_AF_piecewise:
  "currentRhythm s = ''AF'' \<longrightarrow>
     (0 \<le> p \<and> p < 0.1 \<longrightarrow>
        generateArrhythmiaECG s u p t = sin (p * pi * 10) * (0.1 + (u - 0.5) * 0.3))
   \<and> (0.1 \<le> p \<and> p < 0.15 \<longrightarrow>
        generateArrhythmiaECG s u p t = sin ((p - 0.1) * pi * 20) * 1.0
      \<and> generateArrhythmiaECG s u p t = generateArrhythmiaECG (s\<lparr>currentRhythm := ''NSR''\<rparr>) u' p t')
   \<and> (0.15 \<le> p \<and> p < 0.3 \<longrightarrow>
        generateArrhythmiaECG s u p t = sin ((p - 0.15) * pi * 6.67) * 0.3
      \<and> generateArrhythmiaECG s u p t = generateArrhythmiaECG (s\<lparr>currentRhythm := ''NSR''\<rparr>) u' p t')"
  by (simp add: generateArrhythmiaECG_def)

theorem generateArrhythmiaECG_AF_piecewise_witness:
  "generateArrhythmiaECG (exec (SetRhythm ''AF'') (new_monitor example_page)) 0.5 0.05 12 = 0.1
   \<and> generateArrhythmiaECG (exec (SetRhythm ''AF'') (new_monitor example_page)) 1 0.05 12 = 0.25
   \<and> generateArrhythmiaECG (exec (SetRhythm ''AF'') (new_monitor example_page)) 0.5 0.125 12 = 1
   \<and> generateArrhythmiaECG (exec (SetRhythm ''AF'') (new_monitor example_page)) 0.5 0.15 12 = 0"
proof -
  let ?af = "exec (SetRhythm ''AF'') (new_monitor example_page)"
  have af: "currentRhythm ?af = ''AF''"
    by (simp add: updateRhythmDisplay_def)
  note th = generateArrhythmiaECG_AF_piecewise [of ?af _ _ 12 "0.5" 12]
  from th [of "0.05" "0.5"] af
  have "generateArrhythmiaECG ?af 0.5 0.05 12 = sin (0.05 * pi * 10) * (0.1 + (0.5 - 0.5) * 0.3)"
    by simp
  then have a: "generateArrhythmiaECG ?af 0.5 0.05 12 = 0.1" by simp
  from th [of "0.05" 1] af
  have "generateArrhythmiaECG ?af 1 0.05 12 = sin (0.05 * pi * 10) * (0.1 + (1 - 0.5) * 0.3)"
    by simp
  then have b: "generateArrhythmiaECG ?af 1 0.05 12 = 0.25" by simp
  from th [of "0.125" "0.5"] af
  have "generateArrhythmiaECG ?af 0.5 0.125 12 = sin ((0.125 - 0.1) * pi * 20) * 1.0"
    by simp
  then have c: "generateArrhythmiaECG ?af 0.5 0.125 12 = 1" by simp
  from th [of "0.15" "0.5"] af
  have "generateArrhythmiaECG ?af 0.5 0.15 12 = sin ((0.15 - 0.15) * pi * 6.67) * 0.3"
    by simp
  then have d: "generateArrhythmiaECG ?af 0.5 0.15 12 = 0" by simp
  from a b c d show ?thesis by blast
qed

text \<open>
  The claim C8 as it stands fails in the P-wave window: at phase 0.05 with the random
  number 0.5 the perturbation is zero, the claim gives \<open>sin(0.5\<cdot>\<pi>)\<cdot>0.2 = 0.2\<close>, and the
  code returns 0.1.
\<close>

theorem generateArrhythmiaECG_AF_piecewise_counterexample:
  "generateArrhythmiaECG (exec (SetRhythm ''AF'') (new_monitor example_page)) 0.5 0.05 12 = 0.1
   \<and> sin (0.05 * pi * 10) * (0.2 + (0.5 - 0.5) * 0.3) = (0.2 :: real)
   \<and> generateArrhythmiaECG (exec (SetRhythm ''AF'') (new_monitor example_page)) 0.5 0.05 12
       \<noteq> sin (0.05 * pi * 10) * (0.2 + (0.5 - 0.5) * 0.3)"
  by (simp add: generateArrhythmiaECG_def updateRhythmDisplay_def)

text \<open>
  Claim C9 on the code. The monitor is frozen, the rhythm is \<open>NSR\<close> and the heart rate
  60. Both ticks ask to be run again after 100 ms, and both read the clock anew: with
  the same random numbers, the ECG sample of column 0 is 0.2 on a tick at
  1700000000050 ms and 0 on the tick 100 ms later, and the plethysmograph sample of
  column 0 is 0.294 on a tick at 1700000000000 ms and 0.98 on a tick 250 ms later.
\<close>

theorem frozen_ticks_read_the_clock:
  "isFrozen (exec_all [UpdateVital HeartRate 60, ToggleFreeze] (new_monitor example_page)) = True
   \<and> snd (animateECG (exec_all [UpdateVital HeartRate 60, ToggleFreeze] (new_monitor example_page))
        now width us) = Timeout 100
   \<and> snd (animatePleth (exec_all [UpdateVital HeartRate 60, ToggleFreeze] (new_monitor example_page))
        now width vs) = Timeout 100
   \<and> fst (animateECG (exec_all [UpdateVital HeartRate 60, ToggleFreeze] (new_monitor example_page))
        1700000000050 1 (\<lambda>x. \<lparr>rhythm_draw = 0.5, noise_draw = 0.5, contact_draw = 0.5\<rparr>)) = [0.2]
   \<and> fst (animateECG (exec_all [UpdateVital HeartRate 60, ToggleFreeze] (new_monitor example_page))
        1700000000150 1 (\<lambda>x. \<lparr>rhythm_draw = 0.5, noise_draw = 0.5, contact_draw = 0.5\<rparr>)) = [0]
   \<and> ecg_sample (exec_all [UpdateVital HeartRate 60, ToggleFreeze] (new_monitor example_page))
        1700000000050 800 \<lparr>rhythm_draw = 0.5, noise_draw = 0.5, contact_draw = 0.5\<rparr> 0 = 0.2
   \<and> ecg_sample (exec_all [UpdateVital HeartRate 60, ToggleFreeze] (new_monitor example_page))
        1700000000150 800 \<lparr>rhythm_draw = 0.5, noise_draw = 0.5, contact_draw = 0.5\<rparr> 0 = 0
   \<and> pleth_sample (exec_all [UpdateVital HeartRate 60, ToggleFreeze] (new_monitor example_page))
        1700000000000 800 0.5 0 = 0.294
   \<and> pleth_sample (exec_all [UpdateVital HeartRate 60, ToggleFreeze] (new_monitor example_page))
        1700000000250 800 0.5 0 = 0.98"
proof -
  define fz where "fz = exec_all [UpdateVital HeartRate 60, ToggleFreeze] (new_monitor example_page)"
  have st: "isFrozen fz = True" "currentRhythm fz = ''NSR''" "vitals fz HeartRate = 60"
    "vitals fz Spo2 = 98" "stElevation fz = 0" "motion fz = False" "poorContact fz = False"
    "muscleTremor fz = False" "baselineDrift fz = False"
    unfolding fz_def by (simp_all add: run_simps toggleFreeze_def)
  have ecg: "ecg_sample fz 1700000000050 w \<lparr>rhythm_draw = 0.5, noise_draw = 0.5, contact_draw = 0.5\<rparr> 0 = 0.2"
    "ecg_sample fz 1700000000150 w \<lparr>rhythm_draw = 0.5, noise_draw = 0.5, contact_draw = 0.5\<rparr> 0 = 0" for w
    by (simp_all add: ecg_sample_def st generateArrhythmiaECG_def addArtifacts_def rem1_def Let_def)
  have pleth: "pleth_sample fz 1700000000000 800 0.5 0 = 0.294"
    "pleth_sample fz 1700000000250 800 0.5 0 = 0.98"
    by (simp_all add: pleth_sample_def st rem1_def Let_def)
  have one: "[0..<1] = [0]" by simp
  have again: "snd (animateECG fz now width us) = Timeout 100"
    "snd (animatePleth fz now width vs) = Timeout 100"
    by (simp_all add: animateECG_def animatePleth_def st)
  have frame1: "fst (animateECG fz 1700000000050 1 (\<lambda>x. \<lparr>rhythm_draw = 0.5, noise_draw = 0.5, contact_draw = 0.5\<rparr>)) = [0.2]"
    using ecg(1) [of 1] by (simp add: animateECG_def one)
  have frame2: "fst (animateECG fz 1700000000150 1 (\<lambda>x. \<lparr>rhythm_draw = 0.5, noise_draw = 0.5, contact_draw = 0.5\<rparr>)) = [0]"
    using ecg(2) [of 1] by (simp add: animateECG_def one)
  from st(1) again frame1 frame2 ecg [of 800] pleth
  have "isFrozen fz = True
   \<and> snd (animateECG fz now width us) = Timeout 100
   \<and> snd (animatePleth fz now width vs) = Timeout 100
   \<and> fst (animateECG fz 1700000000050 1 (\<lambda>x. \<lparr>rhythm_draw = 0.5, noise_draw = 0.5, contact_draw = 0.5\<rparr>)) = [0.2]
   \<and> fst (animateECG fz 1700000000150 1 (\<lambda>x. \<lparr>rhythm_draw = 0.5, noise_draw = 0.5, contact_draw = 0.5\<rparr>)) = [0]
   \<and> ecg_sample fz 1700000000050 800 \<lparr>rhythm_draw = 0.5, noise_draw = 0.5, contact_draw = 0.5\<rparr> 0 = 0.2
   \<and> ecg_sample fz 1700000000150 800 \<lparr>rhythm_draw = 0.5, noise_draw = 0.5, contact_draw = 0.5\<rparr> 0 = 0
   \<and> pleth_sample fz 1700000000000 800 0.5 0 = 0.294
   \<and> pleth_sample fz 1700000000250 800 0.5 0 = 0.98"
    by blast
  then show ?thesis unfolding fz_def .
qed

theorem frozen_ticks_read_the_clock_witness:
  "fst (animateECG (exec_all [UpdateVital HeartRate 60, ToggleFreeze] (new_monitor example_page))
        1700000000050 1 (\<lambda>x. \<lparr>rhythm_draw = 0.5, noise_draw = 0.5, contact_draw = 0.5\<rparr>))
   \<noteq> fst (animateECG (exec_all [UpdateVital HeartRate 60, ToggleFreeze] (new_monitor example_page))
        1700000000150 1 (\<lambda>x. \<lparr>rhythm_draw = 0.5, noise_draw = 0.5, contact_draw = 0.5\<rparr>))"
  using frozen_ticks_read_the_clock [of 0 0 "\<lambda>x. \<lparr>rhythm_draw = 0.5, noise_draw = 0.5, contact_draw = 0.5\<rparr>" "\<lambda>x. 0.5"]
  by simp

text \<open>
  Claim C10. \<open>triggerAlarm\<close>, and \<open>testAlarm\<close> through it, reads neither \<open>alarmEnabled\<close>
  nor \<open>alarmSilenced\<close>: in every state it sets \<open>alarmActive\<close>, shows the message, and plays
  the alarm sound when audio is enabled and an audio context exists; this holds in the
  states where \<open>checkAlarms\<close> returns without doing anything.
\<close>

theorem testAlarm_ignores_enable_and_silence:
  "alarmActive (testAlarm s) = True
   \<and> alarmStatusActive (testAlarm s) = True
   \<and> alarmMessage (testAlarm s) = ''Test Alarm - All systems functioning''
   \<and> alarmSounds (testAlarm s) =
        (if audioEnabled s \<and> audioContext s then Suc (alarmSounds s) else alarmSounds s)
   \<and> alarmActive (triggerAlarm al s) = True
   \<and> alarmMessage (triggerAlarm al s) = join '', '' al
   \<and> alarmSounds (triggerAlarm al s) =
        (if audioEnabled s \<and> audioContext s then Suc (alarmSounds s) else alarmSounds s)
   \<and> alarmEnabled (testAlarm s) = alarmEnabled s
   \<and> alarmSilenced (testAlarm s) = alarmSilenced s
   \<and> (\<not> alarmEnabled s \<or> alarmSilenced s \<longrightarrow> checkAlarms s = s)"
  by (simp add: testAlarm_def checkAlarms_skipped)

theorem testAlarm_ignores_enable_and_silence_witness:
  "alarmActive (testAlarm (silenceAlarm (setAlarmEnabled False (new_monitor example_page)))) = True
   \<and> alarmMessage (testAlarm (silenceAlarm (setAlarmEnabled False (new_monitor example_page))))
       = ''Test Alarm - All systems functioning''
   \<and> alarmSounds (silenceAlarm (setAlarmEnabled False (new_monitor example_page))) = 1
   \<and> alarmSounds (testAlarm (silenceAlarm (setAlarmEnabled False (new_monitor example_page)))) = 2
   \<and> alarmEnabled (testAlarm (silenceAlarm (setAlarmEnabled False (new_monitor example_page)))) = False
   \<and> alarmSilenced (testAlarm (silenceAlarm (setAlarmEnabled False (new_monitor example_page)))) = True
   \<and> checkAlarms (silenceAlarm (setAlarmEnabled False (new_monitor example_page)))
       = silenceAlarm (setAlarmEnabled False (new_monitor example_page))"
proof -
  let ?s = "silenceAlarm (setAlarmEnabled False (new_monitor example_page))"
  have pre: "alarmEnabled ?s = False" "alarmSilenced ?s = True" "audioEnabled ?s = True"
    "audioContext ?s = True" "alarmSounds ?s = 1"
    by (simp_all add: silenceAlarm_def setAlarmEnabled_def setTimeout_def clearAlarms_def
        new_monitor_def example_page_def setupAudio_def createAlarmSound_def
        updateSTDisplay_def updateRhythmDisplay_def abnormalRhythms_def)
  from testAlarm_ignores_enable_and_silence [of ?s] pre show ?thesis by simp
qed

end
